theory Spec2Isabelle
  imports Main "HOL-Library.Sublist" "HOL-Library.Product_Lexorder"
begin

section \<open>Attendance records\<close>

text \<open>
  The script \<^verbatim>\<open>forskoleappen.py\<close> reads attendance rows into a pandas frame, keeps the
  rows with complete times, expands every stay into the hours of day it touches and
  counts, per hour, how many stays touch it.

  A pandas timestamp is a count since 1970-01-01T00:00:00; it is modelled as the whole
  number of seconds since then (the part below a second plays no role in the script).
  The \<^verbatim>\<open>Date\<close> column holds timestamps; the four time columns hold text as read from
  the spreadsheet, with \<^verbatim>\<open>'-'\<close> where no time was recorded.
\<close>

type_synonym timestamp = int

datatype error = ValueError | TypeError | NameError | OSError

text \<open>
  The columns \<^verbatim>\<open>colnames\<close> of \<^verbatim>\<open>read_local_data\<close>. The four time columns change
  their type from text to timestamp in \<^verbatim>\<open>prep_and_visualize\<close>, hence the parameter.
\<close>

record 'c attendance =
  SchoolId :: int
  WorkGroupId :: int
  Date :: timestamp
  ChildId :: int
  ChildFirstName :: string
  Schedule_in :: 'c
  Schedule_out :: 'c
  Check_in :: 'c
  Check_out :: 'c
  FreeTime :: int
  Absent :: int

text \<open>The frame after \<^verbatim>\<open>df['Weekday'] = ...\<close>.\<close>

record 'c weekday_row = "'c attendance" +
  Weekday :: string

text \<open>The frame \<^verbatim>\<open>fdf\<close> after the conversions and the two duration columns.\<close>

record filtered_row = "timestamp weekday_row" +
  actual :: int
  planned :: int

text \<open>Two rows that agree in every column but \<^verbatim>\<open>Absent\<close>.\<close>

definition absent_variant ::
  "('c, 'z) attendance_scheme \<Rightarrow> ('c, 'z) attendance_scheme \<Rightarrow> bool" where
  "absent_variant x y \<longleftrightarrow> y = x\<lparr>Absent := Absent y\<rparr>"

section \<open>Record Loader\<close>

text \<open>
  A directory is the list of its entries: a file name and what \<^verbatim>\<open>pd.read_excel\<close>
  makes of the file (a frame, or the exception it raises).
  \<^verbatim>\<open>glob.glob(path + '*.xls')\<close> keeps the names that end in \<^verbatim>\<open>.xls\<close> and do not
  start with a dot.
\<close>

type_synonym directory = "(string \<times> (error + string attendance list)) list"

definition glob_xls :: "directory \<Rightarrow> directory" where
  "glob_xls dir =
     filter (\<lambda>(name, _). suffix ''.xls'' name \<and> \<not> prefix ''.'' name) dir"

fun read_frames :: "directory \<Rightarrow> error + string attendance list list" where
  "read_frames [] = Inr []"
| "read_frames ((filename, content) # files) =
     (case content of
        Inl e \<Rightarrow> Inl e
      | Inr tdf \<Rightarrow>
          (case read_frames files of
             Inl e \<Rightarrow> Inl e
           | Inr frames \<Rightarrow> Inr (tdf # frames)))"

text \<open>\<^verbatim>\<open>pd.concat\<close> raises \<^verbatim>\<open>ValueError\<close> ("No objects to concatenate") on an empty list.\<close>

definition pd_concat :: "'a list list \<Rightarrow> error + 'a list" where
  "pd_concat frames = (if frames = [] then Inl ValueError else Inr (concat frames))"

definition read_local_data :: "directory \<Rightarrow> error + string attendance list" where
  "read_local_data dir =
     (let files = glob_xls dir in
      case read_frames files of
        Inl e \<Rightarrow> Inl e
      | Inr frames \<Rightarrow> pd_concat frames)"

text \<open>
  \<^verbatim>\<open>read_from_db(school, date)\<close> has two positional parameters without defaults: an
  argument that the caller does not pass is \<open>None\<close> here, and the call raises
  \<^verbatim>\<open>TypeError\<close> before the body runs. The body connects (\<open>connect\<close> is the exception of
  \<^verbatim>\<open>pyodbc.connect\<close>, if any), builds the query text with \<^verbatim>\<open>str.format\<close> (its line
  breaks are blanks here) and calls \<^verbatim>\<open>pandas.read_sql\<close>; the module is imported under
  the name \<^verbatim>\<open>pd\<close> only, so the name \<^verbatim>\<open>pandas\<close> is unbound and the call raises
  \<^verbatim>\<open>NameError\<close>.
\<close>

definition query :: "string \<Rightarrow> string \<Rightarrow> string" where
  "query school date =
     ''SELECT 'SchoolId', 'WorkGroupId', 'Date', 'ChildId', 'ChildFirstName', ''
     @ ''  'Schedule-in', 'Schedule-out', 'Check-in', 'Check-out', 'FreeTime', 'Absent' ''
     @ ''FROM table_with_attendance_data ''
     @ ''WHERE SchoolId= '' @ school @ '' AND Date >= '' @ date"

definition read_from_db ::
  "string option \<Rightarrow> string option \<Rightarrow> error option \<Rightarrow> error + string attendance list" where
  "read_from_db school date connect =
     (case (school, date) of
        (Some s, Some d) \<Rightarrow>
          (case connect of
             Some e \<Rightarrow> Inl e
           | None \<Rightarrow> (let q = query s d in Inl NameError))
      | _ \<Rightarrow> Inl TypeError)"

section \<open>Row Filter\<close>

text \<open>
  \<^verbatim>\<open>Series.dt.day_name()\<close>: 1970-01-01 was a Thursday.
\<close>

definition day_name :: "timestamp \<Rightarrow> string" where
  "day_name t =
     [''Monday'', ''Tuesday'', ''Wednesday'', ''Thursday'', ''Friday'', ''Saturday'', ''Sunday'']
       ! nat ((t div 86400 + 3) mod 7)"

definition add_weekday :: "string attendance \<Rightarrow> string weekday_row" where
  "add_weekday r = attendance.extend r (weekday_row.fields (day_name (Date r)))"

definition days_of_interest :: "string \<Rightarrow> string list" where
  "days_of_interest days =
     (if days = ''All'' then [''Monday'', ''Tuesday'', ''Wednesday'', ''Thursday'', ''Friday'']
      else [days])"

definition row_filter :: "string list \<Rightarrow> string weekday_row list \<Rightarrow> string weekday_row list" where
  "row_filter doi df =
     filter (\<lambda>r. Check_in r \<noteq> ''-'' \<and> FreeTime r = 0 \<and> Schedule_in r \<noteq> ''-''
               \<and> Schedule_out r \<noteq> ''-'' \<and> Check_out r \<noteq> ''-'' \<and> Weekday r \<in> set doi) df"

text \<open>
  \<^verbatim>\<open>pd.to_datetime(fdf['Date'].astype(str) + ' ' + fdf[col].astype(str))\<close> is a
  function of the row's date and the cell's text. The parser belongs to pandas and is a
  parameter \<open>to_datetime\<close> of the model: \<open>None\<close> where pandas raises (every exception of
  its parser is a \<^verbatim>\<open>ValueError\<close>). The script converts column by column and the first
  bad cell aborts it; as the exception is the same for every cell, the model converts
  row by row.
\<close>

definition convert_row ::
  "(timestamp \<Rightarrow> string \<Rightarrow> timestamp option) \<Rightarrow> string weekday_row \<Rightarrow> filtered_row option" where
  "convert_row to_datetime r =
     (case to_datetime (Date r) (Check_in r) of
        None \<Rightarrow> None
      | Some ci \<Rightarrow>
     (case to_datetime (Date r) (Check_out r) of
        None \<Rightarrow> None
      | Some co \<Rightarrow>
     (case to_datetime (Date r) (Schedule_in r) of
        None \<Rightarrow> None
      | Some si \<Rightarrow>
     (case to_datetime (Date r) (Schedule_out r) of
        None \<Rightarrow> None
      | Some so \<Rightarrow>
          Some \<lparr>SchoolId = SchoolId r, WorkGroupId = WorkGroupId r, Date = Date r,
                ChildId = ChildId r, ChildFirstName = ChildFirstName r,
                Schedule_in = si, Schedule_out = so, Check_in = ci, Check_out = co,
                FreeTime = FreeTime r, Absent = Absent r, Weekday = Weekday r,
                actual = co - ci, planned = so - si\<rparr>))))"

fun convert_rows ::
  "(timestamp \<Rightarrow> string \<Rightarrow> timestamp option) \<Rightarrow> string weekday_row list
     \<Rightarrow> filtered_row list option" where
  "convert_rows to_datetime [] = Some []"
| "convert_rows to_datetime (r # rs) =
     (case convert_row to_datetime r of
        None \<Rightarrow> None
      | Some row \<Rightarrow>
          (case convert_rows to_datetime rs of
             None \<Rightarrow> None
           | Some rows \<Rightarrow> Some (row # rows)))"

section \<open>Interval Expander\<close>

text \<open>\<^verbatim>\<open>pd.PeriodIndex(data=[a, b], freq='H').hour.tolist()\<close>: the hours of day of both.\<close>

definition hour_of :: "timestamp \<Rightarrow> int" where
  "hour_of t = (t div 3600) mod 24"

definition period_hours :: "timestamp \<Rightarrow> timestamp \<Rightarrow> int list" where
  "period_hours a b = [hour_of a, hour_of b]"

text \<open>\<^verbatim>\<open>list(range(a, b))\<close>.\<close>

definition py_range :: "int \<Rightarrow> int \<Rightarrow> int list" where
  "py_range a b = [a..b - 1]"

definition interval_hours :: "timestamp \<Rightarrow> timestamp \<Rightarrow> int list" where
  "interval_hours a b =
     (let chours = period_hours a b in py_range (chours ! 0) (chours ! 1 + 1))"

text \<open>The loop over \<^verbatim>\<open>fdf.iterrows()\<close>; the result is \<open>(tchours, tphours)\<close>.\<close>

definition hour_loop :: "filtered_row list \<Rightarrow> int list list \<times> int list list" where
  "hour_loop fdf =
     fold (\<lambda>row (tchours, tphours).
             (let chours = interval_hours (Check_in row) (Check_out row);
                  phours = interval_hours (Schedule_in row) (Schedule_out row)
              in (tchours @ [chours], tphours @ [phours])))
          fdf ([], [])"

section \<open>Hour Aggregator\<close>

text \<open>
  \<^verbatim>\<open>Counter(xs)\<close> is a dictionary in insertion order: each element of \<open>xs\<close> in turn
  raises its own count by one, a new key goes to the end.
\<close>

fun counter_add :: "('k \<times> nat) list \<Rightarrow> 'k \<Rightarrow> ('k \<times> nat) list" where
  "counter_add [] x = [(x, 1)]"
| "counter_add ((k, c) # kvs) x =
     (if k = x then (k, c + 1) # kvs else (k, c) # counter_add kvs x)"

definition Counter :: "'k list \<Rightarrow> ('k \<times> nat) list" where
  "Counter xs = fold (\<lambda>x d. counter_add d x) xs []"

text \<open>
  \<^verbatim>\<open>sorted(Counter(flat_list).items())\<close>: the pairs in the order of Python's tuples,
  which is the lexicographic one.
\<close>

text \<open>\<^verbatim>\<open>Counter.__getitem__\<close>: the count of a key, 0 for a key that is not there.\<close>

definition counter_get :: "('k \<times> nat) list \<Rightarrow> 'k \<Rightarrow> nat" where
  "counter_get d k = (case map_of d k of None \<Rightarrow> 0 | Some c \<Rightarrow> c)"

definition hour_counts :: "int list list \<Rightarrow> (int \<times> nat) list" where
  "hour_counts thours = (let flat_list = concat thours in sort (Counter flat_list))"

section \<open>The pipeline\<close>

text \<open>
  The local variables of \<^verbatim>\<open>prep_and_visualize\<close> once both counts are there. The
  statements after them (means, sums per weekday, the chart) read these variables and
  change none of them; they are not part of the model.
\<close>

record locals =
  fdf :: "filtered_row list"
  tchours :: "int list list"
  tphours :: "int list list"
  checkcount :: "(int \<times> nat) list"
  plancount :: "(int \<times> nat) list"

definition prep_frame ::
  "(timestamp \<Rightarrow> string \<Rightarrow> timestamp option) \<Rightarrow> string \<Rightarrow> string attendance list
     \<Rightarrow> error + locals" where
  "prep_frame to_datetime days df0 =
     (let df = map add_weekday df0;
          doi = days_of_interest days
      in case convert_rows to_datetime (row_filter doi df) of
           None \<Rightarrow> Inl ValueError
         | Some rows \<Rightarrow>
             (let (tc, tp) = hour_loop rows
              in Inr \<lparr>fdf = rows, tchours = tc, tphours = tp,
                      checkcount = hour_counts tc, plancount = hour_counts tp\<rparr>))"

text \<open>
  \<^verbatim>\<open>prep_and_visualize(local_read, days, image_filename)\<close>. The database branch calls
  \<^verbatim>\<open>read_from_db()\<close> with no argument.
\<close>

definition prep_and_visualize ::
  "(timestamp \<Rightarrow> string \<Rightarrow> timestamp option) \<Rightarrow> directory \<Rightarrow> error option
     \<Rightarrow> bool \<Rightarrow> string \<Rightarrow> error + locals" where
  "prep_and_visualize to_datetime dir connect local_read days =
     (case (if local_read then read_local_data dir else read_from_db None None connect) of
        Inl e \<Rightarrow> Inl e
      | Inr df \<Rightarrow> prep_frame to_datetime days df)"

text \<open>
  What \<^verbatim>\<open>pd.to_datetime\<close> returns on a date and a text \<^verbatim>\<open>HH:MM\<close>; used to run the
  pipeline on concrete rows.
\<close>

definition digit :: "char \<Rightarrow> nat option" where
  "digit c = (let n = (of_char c :: nat) in if 48 \<le> n \<and> n \<le> 57 then Some (n - 48) else None)"

fun parse_hhmm :: "string \<Rightarrow> (nat \<times> nat) option" where
  "parse_hhmm [a, b, c, d, e] =
     (case (digit a, digit b, digit d, digit e) of
        (Some h1, Some h0, Some m1, Some m0) \<Rightarrow>
          (if c = CHR '':'' \<and> 10 * h1 + h0 < 24 \<and> 10 * m1 + m0 < 60
           then Some (10 * h1 + h0, 10 * m1 + m0) else None)
      | _ \<Rightarrow> None)"
| "parse_hhmm _ = None"

definition to_datetime_hhmm :: "timestamp \<Rightarrow> string \<Rightarrow> timestamp option" where
  "to_datetime_hhmm date s =
     (case parse_hhmm s of
        None \<Rightarrow> None
      | Some (h, m) \<Rightarrow> Some (86400 * (date div 86400) + 3600 * int h + 60 * int m))"

section \<open>Sample data\<close>

text \<open>
  Monday 1970-01-05 starts at second 345600, Tuesday 1970-01-06 at second 432000.
  \<open>monday_row\<close> and \<open>tuesday_row\<close> are two attendance rows that differ in the day only,
  08:00 to 16:00 both as scheduled and as checked; \<open>short_row\<close> is a Monday stay checked
  from 08:30 to 11:15 and \<open>night_row\<close> one checked in at 22:00 and out at 06:00.
\<close>

definition monday_row :: "string attendance" where
  "monday_row =
     \<lparr>SchoolId = 1, WorkGroupId = 1, Date = 345600, ChildId = 1, ChildFirstName = ''Ada'',
      Schedule_in = ''08:00'', Schedule_out = ''16:00'', Check_in = ''08:00'',
      Check_out = ''16:00'', FreeTime = 0, Absent = 0\<rparr>"

definition tuesday_row :: "string attendance" where
  "tuesday_row = monday_row\<lparr>Date := 432000\<rparr>"

definition short_row :: "string attendance" where
  "short_row = monday_row\<lparr>Check_in := ''08:30'', Check_out := ''11:15''\<rparr>"

definition night_row :: "string attendance" where
  "night_row = monday_row\<lparr>Check_in := ''22:00'', Check_out := ''06:00''\<rparr>"

text \<open>The same stays as rows of \<^verbatim>\<open>fdf\<close>, with the times as timestamps.\<close>

definition sample_filtered ::
  "timestamp \<Rightarrow> timestamp \<Rightarrow> timestamp \<Rightarrow> timestamp \<Rightarrow> timestamp \<Rightarrow> filtered_row" where
  "sample_filtered date si so ci co =
     \<lparr>SchoolId = 1, WorkGroupId = 1, Date = date, ChildId = 1, ChildFirstName = ''Ada'',
      Schedule_in = si, Schedule_out = so, Check_in = ci, Check_out = co,
      FreeTime = 0, Absent = 0, Weekday = day_name date,
      actual = co - ci, planned = so - si\<rparr>"

definition monday_filtered :: filtered_row where
  "monday_filtered = sample_filtered 345600 374400 403200 374400 403200"

definition short_filtered :: filtered_row where
  "short_filtered = sample_filtered 345600 374400 403200 376200 386100"

definition night_filtered :: filtered_row where
  "night_filtered = sample_filtered 345600 374400 403200 424800 367200"

section \<open>Auxiliary facts\<close>

subsection \<open>The loop and the expander\<close>

lemma interval_hours_upto: "interval_hours a b = [hour_of a..hour_of b]"
  by (simp add: interval_hours_def period_hours_def py_range_def)

lemma distinct_interval_hours: "distinct (interval_hours a b)"
  by (simp add: interval_hours_upto)

lemma upto_as_map: "[s..e] = map (\<lambda>k. s + int k) [0..<nat (e - s + 1)]"
proof (rule nth_equalityI)
  show "length [s..e] = length (map (\<lambda>k. s + int k) [0..<nat (e - s + 1)])"
    by simp
next
  fix i
  assume "i < length [s..e]"
  then show "[s..e] ! i = map (\<lambda>k. s + int k) [0..<nat (e - s + 1)] ! i"
    by simp
qed

lemma hour_loop_fold:
  "fold (\<lambda>row (tchours, tphours).
             (tchours @ [interval_hours (Check_in row) (Check_out row)],
              tphours @ [interval_hours (Schedule_in row) (Schedule_out row)]))
          rows (tc, tp)
   = (tc @ map (\<lambda>r. interval_hours (Check_in r) (Check_out r)) rows,
      tp @ map (\<lambda>r. interval_hours (Schedule_in r) (Schedule_out r)) rows)"
  by (induction rows arbitrary: tc tp) simp_all

lemma hour_loop_map:
  "hour_loop rows = (map (\<lambda>r. interval_hours (Check_in r) (Check_out r)) rows,
                     map (\<lambda>r. interval_hours (Schedule_in r) (Schedule_out r)) rows)"
  by (simp add: hour_loop_def Let_def hour_loop_fold)

subsection \<open>Counter\<close>

lemma map_of_counter_add:
  "map_of (counter_add d x) = (map_of d)(x \<mapsto> (case map_of d x of None \<Rightarrow> 1 | Some c \<Rightarrow> c + 1))"
  by (induction d x rule: counter_add.induct) (auto simp: fun_eq_iff)

lemma keys_counter_add: "fst ` set (counter_add d x) = insert x (fst ` set d)"
  by (induction d x rule: counter_add.induct) auto

lemma distinct_counter_add: "distinct (map fst d) \<Longrightarrow> distinct (map fst (counter_add d x))"
  by (induction d x rule: counter_add.induct) (auto simp: keys_counter_add)

lemma sum_counter_add: "sum_list (map snd (counter_add d x)) = Suc (sum_list (map snd d))"
  by (induction d x rule: counter_add.induct) auto

lemma positive_counter_add:
  "\<forall>p \<in> set d. 0 < snd p \<Longrightarrow> \<forall>p \<in> set (counter_add d x). 0 < snd p"
  by (induction d x rule: counter_add.induct) auto

lemma fold_counter_add:
  "distinct (map fst d) \<Longrightarrow> (\<forall>p \<in> set d. 0 < snd p) \<Longrightarrow>
   distinct (map fst (fold (\<lambda>x d. counter_add d x) xs d)) \<and>
   (\<forall>p \<in> set (fold (\<lambda>x d. counter_add d x) xs d). 0 < snd p) \<and>
   sum_list (map snd (fold (\<lambda>x d. counter_add d x) xs d)) = sum_list (map snd d) + length xs \<and>
   (\<forall>k. counter_get (fold (\<lambda>x d. counter_add d x) xs d) k = counter_get d k + count_list xs k)"
proof (induction xs arbitrary: d)
  case Nil
  then show ?case by simp
next
  case (Cons x xs)
  have 1: "distinct (map fst (counter_add d x))"
    using Cons.prems(1) by (rule distinct_counter_add)
  have 2: "\<forall>p \<in> set (counter_add d x). 0 < snd p"
    using Cons.prems(2) by (rule positive_counter_add)
  have 3: "counter_get (counter_add d x) k = counter_get d k + (if x = k then 1 else 0)" for k
    by (auto simp: counter_get_def map_of_counter_add split: option.splits)
  show ?case using Cons.IH[OF 1 2] by (simp add: sum_counter_add 3)
qed

lemma Counter_facts:
  "distinct (map fst (Counter xs))"
  "\<forall>p \<in> set (Counter xs). 0 < snd p"
  "sum_list (map snd (Counter xs)) = length xs"
  "counter_get (Counter xs) k = count_list xs k"
  using fold_counter_add[of "[]" xs] by (simp_all add: Counter_def counter_get_def)

lemma map_of_Counter:
  "map_of (Counter xs) k = (if count_list xs k = 0 then None else Some (count_list xs k))"
proof (cases "map_of (Counter xs) k")
  case None
  then show ?thesis using Counter_facts(4)[of xs k] by (simp add: counter_get_def)
next
  case (Some c)
  then have "(k, c) \<in> set (Counter xs)" by (rule map_of_SomeD)
  then have "0 < c" using Counter_facts(2)[of xs] by fastforce
  then show ?thesis using Some Counter_facts(4)[of xs k] by (simp add: counter_get_def)
qed

subsection \<open>Sorting the items\<close>

lemma sum_list_insort:
  fixes f :: "'a::linorder \<Rightarrow> nat"
  shows "sum_list (map f (insort x xs)) = f x + sum_list (map f xs)"
  by (induction xs) auto

lemma sum_list_sort:
  fixes f :: "'a::linorder \<Rightarrow> nat"
  shows "sum_list (map f (sort xs)) = sum_list (map f xs)"
  by (induction xs) (simp_all add: sum_list_insort)

lemma distinct_keys_sort: "distinct (map fst d) \<Longrightarrow> distinct (map fst (sort d))"
  by (simp add: distinct_map)

lemma map_of_sort: "distinct (map fst d) \<Longrightarrow> map_of (sort d) = map_of d"
  by (simp add: map_of_inject_set distinct_keys_sort)

lemma sorted_keys:
  fixes xs :: "('a::linorder \<times> 'b::linorder) list"
  shows "sorted xs \<Longrightarrow> sorted (map fst xs)"
  by (induction xs) (auto simp: less_eq_prod_def)

subsection \<open>The aggregator\<close>

lemma count_list_distinct: "distinct xs \<Longrightarrow> count_list xs h = (if h \<in> set xs then 1 else 0)"
  by (induction xs) auto

lemma count_list_concat:
  "(\<forall>xs \<in> set xss. distinct xs) \<Longrightarrow>
   count_list (concat xss) h = length (filter (\<lambda>xs. h \<in> set xs) xss)"
  by (induction xss) (auto simp: count_list_distinct)

lemma hour_counts_lookup:
  "map_of (hour_counts thours) h =
     (if count_list (concat thours) h = 0 then None else Some (count_list (concat thours) h))"
  by (simp add: hour_counts_def map_of_sort Counter_facts(1) map_of_Counter)

lemma hour_counts_sorted: "sorted_wrt (<) (map fst (hour_counts thours))"
  by (simp add: hour_counts_def strict_sorted_iff sorted_keys distinct_keys_sort Counter_facts(1))

lemma hour_counts_sum: "sum_list (map snd (hour_counts thours)) = sum_list (map length thours)"
  by (simp add: hour_counts_def sum_list_sort Counter_facts(3) length_concat)

lemma covering_count:
  "count_list (concat (map (\<lambda>r. interval_hours (f r) (g r)) rows)) h
     = length (filter (\<lambda>r. h \<in> set (interval_hours (f r) (g r))) rows)"
proof -
  have "\<forall>xs \<in> set (map (\<lambda>r. interval_hours (f r) (g r)) rows). distinct xs"
    by (simp add: distinct_interval_hours)
  then have "count_list (concat (map (\<lambda>r. interval_hours (f r) (g r)) rows)) h
      = length (filter (\<lambda>xs. h \<in> set xs) (map (\<lambda>r. interval_hours (f r) (g r)) rows))"
    by (rule count_list_concat)
  also have "\<dots> = length (filter (\<lambda>r. h \<in> set (interval_hours (f r) (g r))) rows)"
    by (simp add: filter_map o_def)
  finally show ?thesis .
qed

subsection \<open>The frame\<close>

lemma add_weekday_fields:
  "Weekday (add_weekday r) = day_name (Date r)"
  "Date (add_weekday r) = Date r"
  "Check_in (add_weekday r) = Check_in r"
  "Check_out (add_weekday r) = Check_out r"
  "Schedule_in (add_weekday r) = Schedule_in r"
  "Schedule_out (add_weekday r) = Schedule_out r"
  "FreeTime (add_weekday r) = FreeTime r"
  "Absent (add_weekday r) = Absent r"
  by (simp_all add: add_weekday_def attendance.defs weekday_row.defs)

lemma convert_row_fields:
  assumes "convert_row to_datetime r = Some row"
  shows "Weekday row = Weekday r" and "Date row = Date r" and "Absent row = Absent r"
  using assms by (auto simp: convert_row_def split: option.splits)

lemma convert_rows_all2:
  "convert_rows to_datetime rs = Some rows \<Longrightarrow>
   list_all2 (\<lambda>r row. convert_row to_datetime r = Some row) rs rows"
  by (induction rs arbitrary: rows) (auto split: option.splits)

lemma convert_rows_member:
  assumes "convert_rows to_datetime rs = Some rows" and "r \<in> set rs"
  shows "\<exists>row \<in> set rows. convert_row to_datetime r = Some row"
proof -
  from assms(2) obtain i where i: "i < length rs" "rs ! i = r"
    by (auto simp: in_set_conv_nth)
  from convert_rows_all2[OF assms(1)]
  have "length rs = length rows" "convert_row to_datetime (rs ! i) = Some (rows ! i)"
    using i(1) by (auto simp: list_all2_conv_all_nth)
  then show ?thesis using i by auto
qed

lemma convert_rows_origin:
  assumes "convert_rows to_datetime rs = Some rows" and "row \<in> set rows"
  shows "\<exists>r \<in> set rs. convert_row to_datetime r = Some row"
proof -
  from assms(2) obtain i where i: "i < length rows" "rows ! i = row"
    by (auto simp: in_set_conv_nth)
  from convert_rows_all2[OF assms(1)]
  have "length rs = length rows" "convert_row to_datetime (rs ! i) = Some (rows ! i)"
    using i(1) by (auto simp: list_all2_conv_all_nth)
  then show ?thesis using i by (metis nth_mem)
qed

lemma prep_frame_Inr:
  assumes "prep_frame to_datetime days df0 = Inr L"
  shows "convert_rows to_datetime (row_filter (days_of_interest days) (map add_weekday df0))
           = Some (fdf L)"
    and "tchours L = map (\<lambda>r. interval_hours (Check_in r) (Check_out r)) (fdf L)"
    and "tphours L = map (\<lambda>r. interval_hours (Schedule_in r) (Schedule_out r)) (fdf L)"
    and "checkcount L = hour_counts (tchours L)"
    and "plancount L = hour_counts (tphours L)"
  using assms by (auto simp: prep_frame_def Let_def hour_loop_map split: option.splits)

lemma prep_and_visualize_Inr:
  assumes "prep_and_visualize to_datetime dir connect local_read days = Inr L"
  shows "\<exists>df0. prep_frame to_datetime days df0 = Inr L"
  using assms by (auto simp: prep_and_visualize_def split: sum.splits)

lemma row_filter_weekday: "r \<in> set (row_filter doi df) \<Longrightarrow> Weekday r \<in> set doi"
  by (simp add: row_filter_def)

lemma row_filter_single_day:
  "row_filter [d] (map add_weekday (filter (\<lambda>r. day_name (Date r) = d) df0))
     = row_filter [d] (map add_weekday df0)"
  by (induction df0) (auto simp: row_filter_def add_weekday_fields)

lemma prep_frame_counts:
  assumes "prep_frame to_datetime days df0 = Inr L"
  shows "map_of (checkcount L) h =
           (let n = length (filter (\<lambda>r. h \<in> set (interval_hours (Check_in r) (Check_out r)))
                              (fdf L))
            in if n = 0 then None else Some n)"
    and "map_of (plancount L) h =
           (let n = length (filter (\<lambda>r. h \<in> set (interval_hours (Schedule_in r) (Schedule_out r)))
                              (fdf L))
            in if n = 0 then None else Some n)"
  unfolding prep_frame_Inr(4,5)[OF assms] prep_frame_Inr(2,3)[OF assms] Let_def
    hour_counts_lookup covering_count
  by simp_all

lemma covering_positive:
  "row \<in> set rows \<Longrightarrow> h \<in> set (interval_hours (f row) (g row)) \<Longrightarrow>
   0 < length (filter (\<lambda>r. h \<in> set (interval_hours (f r) (g r))) rows)"
  by (induction rows) auto

subsection \<open>Rows that differ in the Absent flag only\<close>

lemma absent_variantI: "absent_variant x (x\<lparr>Absent := a\<rparr>)"
  by (simp add: absent_variant_def)

lemma absent_variant_fields:
  assumes "absent_variant x y"
  shows "Check_in y = Check_in x" and "Check_out y = Check_out x"
    and "Schedule_in y = Schedule_in x" and "Schedule_out y = Schedule_out x"
    and "FreeTime y = FreeTime x" and "Date y = Date x"
proof -
  from assms have h: "y = x\<lparr>Absent := Absent y\<rparr>"
    by (simp only: absent_variant_def)
  show "Check_in y = Check_in x" using arg_cong[OF h, of Check_in] by simp
  show "Check_out y = Check_out x" using arg_cong[OF h, of Check_out] by simp
  show "Schedule_in y = Schedule_in x" using arg_cong[OF h, of Schedule_in] by simp
  show "Schedule_out y = Schedule_out x" using arg_cong[OF h, of Schedule_out] by simp
  show "FreeTime y = FreeTime x" using arg_cong[OF h, of FreeTime] by simp
  show "Date y = Date x" using arg_cong[OF h, of Date] by simp
qed

lemma absent_variant_weekday:
  assumes "absent_variant x y"
  shows "Weekday y = Weekday x"
proof -
  from assms have h: "y = x\<lparr>Absent := Absent y\<rparr>"
    by (simp only: absent_variant_def)
  show ?thesis using arg_cong[OF h, of Weekday] by simp
qed

lemma convert_row_absent:
  "convert_row to_datetime (r\<lparr>Absent := a\<rparr>)
     = map_option (\<lambda>row. row\<lparr>Absent := a\<rparr>) (convert_row to_datetime r)"
  by (simp add: convert_row_def split: option.splits)

lemma add_weekday_absent: "add_weekday (r\<lparr>Absent := a\<rparr>) = (add_weekday r)\<lparr>Absent := a\<rparr>"
  by (simp add: add_weekday_def attendance.defs weekday_row.defs)

lemma convert_row_variant:
  assumes "absent_variant x y"
  shows "rel_option absent_variant (convert_row to_datetime x) (convert_row to_datetime y)"
proof -
  from assms have h: "y = x\<lparr>Absent := Absent y\<rparr>"
    by (simp only: absent_variant_def)
  have "convert_row to_datetime y = convert_row to_datetime (x\<lparr>Absent := Absent y\<rparr>)"
    using h by (rule arg_cong)
  also have "\<dots> = map_option (\<lambda>row. row\<lparr>Absent := Absent y\<rparr>) (convert_row to_datetime x)"
    by (rule convert_row_absent)
  finally have eq: "convert_row to_datetime y
      = map_option (\<lambda>row. row\<lparr>Absent := Absent y\<rparr>) (convert_row to_datetime x)" .
  show ?thesis
  proof (cases "convert_row to_datetime x")
    case None
    then show ?thesis by (simp only: eq option.map option.rel_inject)
  next
    case (Some row)
    then show ?thesis by (simp only: eq option.map option.rel_inject absent_variantI)
  qed
qed

lemma convert_rows_variant:
  "list_all2 absent_variant xs ys \<Longrightarrow>
   rel_option (list_all2 absent_variant)
     (convert_rows to_datetime xs) (convert_rows to_datetime ys)"
proof (induction xs ys rule: list_all2_induct)
  case Nil
  then show ?case by simp
next
  case (Cons x xs y ys)
  from convert_row_variant[OF Cons.hyps(1), of to_datetime] Cons.IH show ?case
    by (cases "convert_row to_datetime x"; cases "convert_row to_datetime y";
        cases "convert_rows to_datetime xs"; cases "convert_rows to_datetime ys") simp_all
qed

lemma row_filter_variant:
  "list_all2 absent_variant xs ys \<Longrightarrow>
   list_all2 absent_variant (row_filter doi xs) (row_filter doi ys)"
proof (induction xs ys rule: list_all2_induct)
  case Nil
  then show ?case by (simp add: row_filter_def)
next
  case (Cons x xs y ys)
  then show ?case
    by (simp add: row_filter_def absent_variant_fields[OF Cons.hyps(1)]
        absent_variant_weekday[OF Cons.hyps(1)])
qed

lemma hour_loop_variant:
  "list_all2 absent_variant xs ys \<Longrightarrow> hour_loop ys = hour_loop xs"
proof (induction xs ys rule: list_all2_induct)
  case Nil
  then show ?case by simp
next
  case (Cons x xs y ys)
  then show ?case
    by (simp add: hour_loop_map absent_variant_fields[OF Cons.hyps(1)])
qed

lemma add_weekday_frame_variant:
  "list_all2 absent_variant
     (map add_weekday df0) (map add_weekday (map (\<lambda>r. r\<lparr>Absent := v r\<rparr>) df0))"
  by (induction df0) (simp_all add: add_weekday_absent absent_variantI)

lemma prep_frame_absent:
  "map_sum id checkcount (prep_frame to_datetime days (map (\<lambda>r. r\<lparr>Absent := v r\<rparr>) df0))
     = map_sum id checkcount (prep_frame to_datetime days df0)"
  "map_sum id plancount (prep_frame to_datetime days (map (\<lambda>r. r\<lparr>Absent := v r\<rparr>) df0))
     = map_sum id plancount (prep_frame to_datetime days df0)"
proof -
  let ?xs = "row_filter (days_of_interest days) (map add_weekday df0)"
  let ?ys = "row_filter (days_of_interest days)
               (map add_weekday (map (\<lambda>r. r\<lparr>Absent := v r\<rparr>) df0))"
  have rel: "rel_option (list_all2 absent_variant)
      (convert_rows to_datetime ?xs) (convert_rows to_datetime ?ys)"
    by (intro convert_rows_variant row_filter_variant add_weekday_frame_variant)
  have loops: "map_option hour_loop (convert_rows to_datetime ?ys)
      = map_option hour_loop (convert_rows to_datetime ?xs)"
    using rel
    by (cases "convert_rows to_datetime ?xs"; cases "convert_rows to_datetime ?ys")
       (simp_all add: hour_loop_variant)
  have cc: "map_sum id checkcount (prep_frame to_datetime days df)
      = (case map_option hour_loop (convert_rows to_datetime
                (row_filter (days_of_interest days) (map add_weekday df))) of
           None \<Rightarrow> Inl ValueError
         | Some t \<Rightarrow> Inr (hour_counts (fst t)))" for df
    by (simp add: prep_frame_def Let_def split_beta split: option.splits)
  have pc: "map_sum id plancount (prep_frame to_datetime days df)
      = (case map_option hour_loop (convert_rows to_datetime
                (row_filter (days_of_interest days) (map add_weekday df))) of
           None \<Rightarrow> Inl ValueError
         | Some t \<Rightarrow> Inr (hour_counts (snd t)))" for df
    by (simp add: prep_frame_def Let_def split_beta split: option.splits)
  show "map_sum id checkcount (prep_frame to_datetime days (map (\<lambda>r. r\<lparr>Absent := v r\<rparr>) df0))
     = map_sum id checkcount (prep_frame to_datetime days df0)"
    by (simp only: cc loops)
  show "map_sum id plancount (prep_frame to_datetime days (map (\<lambda>r. r\<lparr>Absent := v r\<rparr>) df0))
     = map_sum id plancount (prep_frame to_datetime days df0)"
    by (simp only: pc loops)
qed

section \<open>Properties of the Interval Expander\<close>

text \<open>
  C1: the loop gives every filtered record the expansion of its actual interval
  (check-in to check-out) and of its planned interval (schedule-in to schedule-out),
  and for an interval whose start hour is at most its end hour the expansion is the
  list of the (end hour - start hour + 1) consecutive integers that starts at the start
  hour; its last element is the end hour. A stay from 08:30 to 11:15 gives 8, 9, 10, 11.
\<close>

theorem interval_expander_consecutive:
  assumes "hour_of a \<le> hour_of b" and "i < length rows"
  shows "interval_hours a b = map (\<lambda>k. hour_of a + int k) [0..<nat (hour_of b - hour_of a + 1)]
       \<and> length (interval_hours a b) = nat (hour_of b - hour_of a + 1)
       \<and> hd (interval_hours a b) = hour_of a
       \<and> last (interval_hours a b) = hour_of b
       \<and> fst (hour_loop rows) ! i = interval_hours (Check_in (rows ! i)) (Check_out (rows ! i))
       \<and> snd (hour_loop rows) ! i
           = interval_hours (Schedule_in (rows ! i)) (Schedule_out (rows ! i))"
proof -
  have ne: "[hour_of a..hour_of b] \<noteq> []"
    using assms(1) by simp
  have "interval_hours a b = map (\<lambda>k. hour_of a + int k) [0..<nat (hour_of b - hour_of a + 1)]"
    unfolding interval_hours_upto by (rule upto_as_map)
  moreover have "length (interval_hours a b) = nat (hour_of b - hour_of a + 1)"
    by (simp add: interval_hours_upto)
  moreover have "hd (interval_hours a b) = hour_of a"
    using assms(1) by (simp add: interval_hours_upto upto_rec1)
  moreover have "last (interval_hours a b) = hour_of b"
    using assms(1) by (simp add: interval_hours_upto upto_rec2)
  moreover have "fst (hour_loop rows) ! i
      = interval_hours (Check_in (rows ! i)) (Check_out (rows ! i))"
    using assms(2) by (simp add: hour_loop_map)
  moreover have "snd (hour_loop rows) ! i
      = interval_hours (Schedule_in (rows ! i)) (Schedule_out (rows ! i))"
    using assms(2) by (simp add: hour_loop_map)
  ultimately show ?thesis by blast
qed

theorem interval_expander_consecutive_witness:
  "hour_of 376200 \<le> hour_of 386100 \<and> (0::nat) < length [short_filtered]
   \<and> interval_hours 376200 386100 = [8, 9, 10, 11]
   \<and> fst (hour_loop [short_filtered]) ! 0 = [8, 9, 10, 11]
   \<and> snd (hour_loop [short_filtered]) ! 0 = [8, 9, 10, 11, 12, 13, 14, 15, 16]"
proof -
  have h1: "hour_of 376200 \<le> hour_of 386100"
    by (simp add: hour_of_def)
  have h2: "(0::nat) < length [short_filtered]"
    by simp
  note t = interval_expander_consecutive[OF h1 h2]
  have m: "map (\<lambda>k. hour_of 376200 + int k) [0..<nat (hour_of 386100 - hour_of 376200 + 1)]
      = [8, 9, 10, 11]"
    by code_simp
  have c: "Check_in ([short_filtered] ! 0) = 376200" "Check_out ([short_filtered] ! 0) = 386100"
    by (simp_all add: short_filtered_def sample_filtered_def)
  have p: "interval_hours (Schedule_in ([short_filtered] ! 0)) (Schedule_out ([short_filtered] ! 0))
      = [8, 9, 10, 11, 12, 13, 14, 15, 16]"
    by code_simp
  show ?thesis using h1 h2 t m c p by simp
qed

section \<open>Properties of the Hour Aggregator\<close>

text \<open>
  C2: for every list of filtered records, the counts of the Hour Aggregator's mapping add
  up to the sum of the lengths of the records' expanded hour lists, for the actual
  counts and for the planned counts.
\<close>

theorem hour_counts_total:
  "sum_list (map snd (hour_counts (fst (hour_loop rows))))
     = sum_list (map (\<lambda>r. length (interval_hours (Check_in r) (Check_out r))) rows)
   \<and> sum_list (map snd (hour_counts (snd (hour_loop rows))))
     = sum_list (map (\<lambda>r. length (interval_hours (Schedule_in r) (Schedule_out r))) rows)"
  by (simp add: hour_counts_sum hour_loop_map o_def)

theorem hour_counts_total_witness:
  "sum_list (map snd (hour_counts (fst (hour_loop [short_filtered, monday_filtered])))) = 13
   \<and> sum_list (map snd (hour_counts (snd (hour_loop [short_filtered, monday_filtered])))) = 18"
proof -
  have a: "sum_list (map (\<lambda>r. length (interval_hours (Check_in r) (Check_out r)))
             [short_filtered, monday_filtered]) = 13"
    by code_simp
  have b: "sum_list (map (\<lambda>r. length (interval_hours (Schedule_in r) (Schedule_out r)))
             [short_filtered, monday_filtered]) = 18"
    by code_simp
  show ?thesis
    using hour_counts_total[of "[short_filtered, monday_filtered]"] a b by simp
qed

text \<open>
  C3, as amended: for every list of filtered records and every hour, the mapping of the
  Hour Aggregator holds for the hour the number of filtered records whose expanded
  interval includes it where that number is positive, and holds no entry for an hour
  that no interval covers; the hours of the mapping are in strictly increasing order.
  This holds for the actual and for the planned counts.
\<close>

theorem hour_counts_covering:
  "map_of (hour_counts (fst (hour_loop rows))) h
     = (let n = length (filter (\<lambda>r. h \<in> set (interval_hours (Check_in r) (Check_out r))) rows)
        in if n = 0 then None else Some n)
   \<and> sorted_wrt (<) (map fst (hour_counts (fst (hour_loop rows))))
   \<and> map_of (hour_counts (snd (hour_loop rows))) h
     = (let n = length (filter (\<lambda>r. h \<in> set (interval_hours (Schedule_in r) (Schedule_out r))) rows)
        in if n = 0 then None else Some n)
   \<and> sorted_wrt (<) (map fst (hour_counts (snd (hour_loop rows))))"
  unfolding Let_def hour_counts_lookup hour_loop_map fst_conv snd_conv covering_count
  by (simp add: hour_counts_sorted)

theorem hour_counts_covering_witness:
  "map_of (hour_counts (fst (hour_loop [short_filtered, monday_filtered]))) 9 = Some 2
   \<and> map_of (hour_counts (fst (hour_loop [short_filtered, monday_filtered]))) 12 = Some 1
   \<and> map_of (hour_counts (fst (hour_loop [short_filtered, monday_filtered]))) 3 = None
   \<and> map_of (hour_counts (snd (hour_loop [short_filtered, monday_filtered]))) 16 = Some 2"
proof -
  have a: "length (filter (\<lambda>r. 9 \<in> set (interval_hours (Check_in r) (Check_out r)))
             [short_filtered, monday_filtered]) = 2"
    by code_simp
  have b: "length (filter (\<lambda>r. 12 \<in> set (interval_hours (Check_in r) (Check_out r)))
             [short_filtered, monday_filtered]) = 1"
    by code_simp
  have c: "length (filter (\<lambda>r. 3 \<in> set (interval_hours (Check_in r) (Check_out r)))
             [short_filtered, monday_filtered]) = 0"
    by code_simp
  have d: "length (filter (\<lambda>r. 16 \<in> set (interval_hours (Schedule_in r) (Schedule_out r)))
             [short_filtered, monday_filtered]) = 2"
    by code_simp
  show ?thesis
    using hour_counts_covering[of "[short_filtered, monday_filtered]" 9]
      hour_counts_covering[of "[short_filtered, monday_filtered]" 12]
      hour_counts_covering[of "[short_filtered, monday_filtered]" 3]
      hour_counts_covering[of "[short_filtered, monday_filtered]" 16]
    unfolding a b c d by simp
qed

text \<open>
  C3 as it stands gives hour 0 the count 0 when no interval covers it. For the one
  Monday record from 08:00 to 16:00 no interval covers hour 0 and the mapping has
  no entry for it: it holds the hours 8 to 16 only, also on the run of the whole
  pipeline for the days \<^verbatim>\<open>'Monday'\<close> on that record and its Tuesday twin.
\<close>

theorem hour_counts_zero_counterexample:
  "0 \<notin> set (interval_hours (Check_in monday_filtered) (Check_out monday_filtered))
   \<and> map_of (hour_counts (fst (hour_loop [monday_filtered]))) 0 = None
   \<and> hour_counts (fst (hour_loop [monday_filtered]))
       = [(8, 1), (9, 1), (10, 1), (11, 1), (12, 1), (13, 1), (14, 1), (15, 1), (16, 1)]
   \<and> map_sum id checkcount (prep_frame to_datetime_hhmm ''Monday'' [monday_row, tuesday_row])
       = Inr [(8, 1), (9, 1), (10, 1), (11, 1), (12, 1), (13, 1), (14, 1), (15, 1), (16, 1)]
   \<and> map_sum id plancount (prep_frame to_datetime_hhmm ''Monday'' [monday_row, tuesday_row])
       = Inr [(8, 1), (9, 1), (10, 1), (11, 1), (12, 1), (13, 1), (14, 1), (15, 1), (16, 1)]"
  by code_simp

section \<open>Properties of the Row Filter\<close>

text \<open>
  C4: whatever the frame, a record with the placeholder \<^verbatim>\<open>'-'\<close> in Check-in, Check-out,
  Schedule-in or Schedule-out is not in the output of the Row Filter.
\<close>

theorem row_filter_excludes_placeholder:
  assumes "Check_in r = ''-'' \<or> Check_out r = ''-'' \<or> Schedule_in r = ''-'' \<or> Schedule_out r = ''-''"
  shows "r \<notin> set (row_filter doi df)"
  using assms by (auto simp: row_filter_def)

theorem row_filter_excludes_placeholder_witness:
  "Check_out (add_weekday (monday_row\<lparr>Check_out := ''-''\<rparr>)) = ''-''
   \<and> add_weekday (monday_row\<lparr>Check_out := ''-''\<rparr>)
       \<notin> set (row_filter [''Monday'']
                [add_weekday monday_row, add_weekday (monday_row\<lparr>Check_out := ''-''\<rparr>)])"
proof -
  have h: "Check_out (add_weekday (monday_row\<lparr>Check_out := ''-''\<rparr>)) = ''-''"
    by (simp add: add_weekday_def attendance.defs)
  show ?thesis
    using h row_filter_excludes_placeholder[of "add_weekday (monday_row\<lparr>Check_out := ''-''\<rparr>)"
        "[''Monday'']" "[add_weekday monday_row, add_weekday (monday_row\<lparr>Check_out := ''-''\<rparr>)]"]
    by simp
qed

text \<open>
  C5: whatever the frame, a record whose FreeTime flag is not zero is not in the output
  of the Row Filter.
\<close>

theorem row_filter_excludes_freetime:
  assumes "FreeTime r \<noteq> 0"
  shows "r \<notin> set (row_filter doi df)"
  using assms by (simp add: row_filter_def)

theorem row_filter_excludes_freetime_witness:
  "FreeTime (add_weekday (monday_row\<lparr>FreeTime := 1\<rparr>)) \<noteq> 0
   \<and> add_weekday (monday_row\<lparr>FreeTime := 1\<rparr>)
       \<notin> set (row_filter [''Monday'']
                [add_weekday (monday_row\<lparr>FreeTime := 1\<rparr>), add_weekday monday_row])"
proof -
  have h: "FreeTime (add_weekday (monday_row\<lparr>FreeTime := 1\<rparr>)) \<noteq> 0"
    by (simp add: add_weekday_def attendance.defs)
  show ?thesis
    using h row_filter_excludes_freetime[of "add_weekday (monday_row\<lparr>FreeTime := 1\<rparr>)"
        "[''Monday'']" "[add_weekday (monday_row\<lparr>FreeTime := 1\<rparr>), add_weekday monday_row]"]
    by simp
qed


text \<open>
  C6: with \<^verbatim>\<open>days='Monday'\<close> every record of the Row Filter's output has the weekday
  Monday; every record of the filtered frame of a call of \<^verbatim>\<open>prep_and_visualize\<close>
  has the weekday Monday, derived from its date; and the records of other weekdays
  contribute nothing: on the whole frame and on its Monday records alone the
  preparation ends alike, with the same counts.
\<close>

theorem monday_only:
  "(\<forall>r \<in> set (row_filter (days_of_interest ''Monday'') df). Weekday r = ''Monday'')
   \<and> (prep_and_visualize to_datetime dir connect local_read ''Monday'' = Inr L \<longrightarrow>
        (\<forall>row \<in> set (fdf L). Weekday row = ''Monday'' \<and> day_name (Date row) = ''Monday''))
   \<and> prep_frame to_datetime ''Monday'' df0
       = prep_frame to_datetime ''Monday'' (filter (\<lambda>r. day_name (Date r) = ''Monday'') df0)"
proof -
  have doi: "days_of_interest ''Monday'' = [''Monday'']"
    by (simp add: days_of_interest_def)
  have 1: "\<forall>r \<in> set (row_filter (days_of_interest ''Monday'') df). Weekday r = ''Monday''"
    using row_filter_weekday[of _ "[''Monday'']" df] by (auto simp: doi)
  have 2: "\<forall>row \<in> set (fdf L). Weekday row = ''Monday'' \<and> day_name (Date row) = ''Monday''"
    if whole: "prep_and_visualize to_datetime dir connect local_read ''Monday'' = Inr L"
  proof
    fix row
    assume "row \<in> set (fdf L)"
    moreover from prep_and_visualize_Inr[OF whole]
    obtain df1 where run: "prep_frame to_datetime ''Monday'' df1 = Inr L"
      by blast
    ultimately obtain r where r: "r \<in> set (row_filter [''Monday''] (map add_weekday df1))"
        "convert_row to_datetime r = Some row"
      using prep_frame_Inr(1)[OF run] convert_rows_origin unfolding doi by blast
    from r(1) have "Weekday r = ''Monday''"
      using row_filter_weekday by fastforce
    moreover from r(1) obtain r0 where "r = add_weekday r0"
      by (auto simp: row_filter_def)
    ultimately have "Weekday r = ''Monday''" "day_name (Date r) = ''Monday''"
      by (simp_all add: add_weekday_fields)
    then show "Weekday row = ''Monday'' \<and> day_name (Date row) = ''Monday''"
      using convert_row_fields[OF r(2)] by simp
  qed
  have 3: "prep_frame to_datetime ''Monday'' df0
      = prep_frame to_datetime ''Monday'' (filter (\<lambda>r. day_name (Date r) = ''Monday'') df0)"
    by (simp add: prep_frame_def doi row_filter_single_day)
  from 1 2 3 show ?thesis by blast
qed

theorem monday_only_witness:
  "map Weekday (row_filter (days_of_interest ''Monday'')
                  [add_weekday monday_row, add_weekday tuesday_row]) = [''Monday'']
   \<and> prep_and_visualize to_datetime_hhmm [(''week1.xls'', Inr [monday_row, tuesday_row])] None
         True ''Monday''
       = Inr (projr (prep_frame to_datetime_hhmm ''Monday'' [monday_row, tuesday_row]))
   \<and> map Weekday (fdf (projr (prep_frame to_datetime_hhmm ''Monday'' [monday_row, tuesday_row])))
       = [''Monday'']
   \<and> prep_frame to_datetime_hhmm ''Monday'' [monday_row, tuesday_row]
       = prep_frame to_datetime_hhmm ''Monday'' [monday_row]"
proof -
  let ?df = "[add_weekday monday_row, add_weekday tuesday_row]"
  let ?dir = "[(''week1.xls'', Inr [monday_row, tuesday_row])]"
  let ?L = "projr (prep_frame to_datetime_hhmm ''Monday'' [monday_row, tuesday_row])"
  have run: "prep_and_visualize to_datetime_hhmm ?dir None True ''Monday'' = Inr ?L"
    by code_simp
  have len1: "length (row_filter (days_of_interest ''Monday'') ?df) = 1"
    by code_simp
  have len2: "length (fdf ?L) = 1"
    by code_simp
  have sel: "filter (\<lambda>r. day_name (Date r) = ''Monday'') [monday_row, tuesday_row] = [monday_row]"
    by (simp add: day_name_def monday_row_def tuesday_row_def)
  note t = monday_only[of ?df to_datetime_hhmm ?dir None True ?L "[monday_row, tuesday_row]"]
  from t have all1: "\<forall>r \<in> set (row_filter (days_of_interest ''Monday'') ?df). Weekday r = ''Monday''"
    by blast
  from len1 obtain r where "row_filter (days_of_interest ''Monday'') ?df = [r]"
    by (auto simp: length_Suc_conv)
  with all1 have w1: "map Weekday (row_filter (days_of_interest ''Monday'') ?df) = [''Monday'']"
    by simp
  from t run have all2: "\<forall>row \<in> set (fdf ?L). Weekday row = ''Monday''"
    by blast
  from len2 obtain row where "fdf ?L = [row]"
    by (auto simp: length_Suc_conv)
  with all2 have w2: "map Weekday (fdf ?L) = [''Monday'']"
    by simp
  from t sel have "prep_frame to_datetime_hhmm ''Monday'' [monday_row, tuesday_row]
      = prep_frame to_datetime_hhmm ''Monday'' [monday_row]"
    by simp
  with w1 run w2 show ?thesis by blast
qed

text \<open>
  C10: the Row Filter does not read the Absent flag. Changing the Absent values of a
  frame changes the Absent values of the output and nothing else, and a record whose
  four time fields are not the placeholder, whose FreeTime flag is zero and whose weekday
  is among the selected days is in the output whatever its Absent value. The hour
  aggregates do not depend on the Absent column either: with any other Absent values
  the preparation fails alike or gives the same actual and planned counts. And the
  record is counted: where the preparation goes through, its converted row is in the
  filtered frame with its Absent value, and for every hour of its actual (planned)
  expansion the actual (planned) mapping holds exactly the number of rows of the
  filtered frame whose expansion includes the hour, this row among them.
\<close>

theorem absent_not_consulted:
  "row_filter doi (map (\<lambda>r. r\<lparr>Absent := v r\<rparr>) df)
     = map (\<lambda>r. r\<lparr>Absent := v r\<rparr>) (row_filter doi df)
   \<and> (r \<in> set df \<and> Check_in r \<noteq> ''-'' \<and> Check_out r \<noteq> ''-'' \<and> Schedule_in r \<noteq> ''-''
        \<and> Schedule_out r \<noteq> ''-'' \<and> FreeTime r = 0 \<and> Weekday r \<in> set doi
      \<longrightarrow> r \<in> set (row_filter doi df))
   \<and> map_sum id checkcount (prep_frame to_datetime days (map (\<lambda>r. r\<lparr>Absent := w r\<rparr>) frame))
       = map_sum id checkcount (prep_frame to_datetime days frame)
   \<and> map_sum id plancount (prep_frame to_datetime days (map (\<lambda>r. r\<lparr>Absent := w r\<rparr>) frame))
       = map_sum id plancount (prep_frame to_datetime days frame)
   \<and> (prep_frame to_datetime days frame = Inr L \<and> rec \<in> set frame
        \<and> Check_in rec \<noteq> ''-'' \<and> Check_out rec \<noteq> ''-'' \<and> Schedule_in rec \<noteq> ''-''
        \<and> Schedule_out rec \<noteq> ''-'' \<and> FreeTime rec = 0
        \<and> day_name (Date rec) \<in> set (days_of_interest days)
      \<longrightarrow> (\<exists>row \<in> set (fdf L).
             convert_row to_datetime (add_weekday rec) = Some row \<and> Absent row = Absent rec
             \<and> (\<forall>h \<in> set (interval_hours (Check_in row) (Check_out row)).
                   0 < length (filter (\<lambda>r. h \<in> set (interval_hours (Check_in r) (Check_out r)))
                                 (fdf L))
                   \<and> map_of (checkcount L) h
                       = Some (length (filter
                                 (\<lambda>r. h \<in> set (interval_hours (Check_in r) (Check_out r)))
                                 (fdf L))))
             \<and> (\<forall>h \<in> set (interval_hours (Schedule_in row) (Schedule_out row)).
                   0 < length (filter
                                 (\<lambda>r. h \<in> set (interval_hours (Schedule_in r) (Schedule_out r)))
                                 (fdf L))
                   \<and> map_of (plancount L) h
                       = Some (length (filter
                                 (\<lambda>r. h \<in> set (interval_hours (Schedule_in r) (Schedule_out r)))
                                 (fdf L))))))"
proof -
  have 1: "row_filter doi (map (\<lambda>r. r\<lparr>Absent := v r\<rparr>) df)
      = map (\<lambda>r. r\<lparr>Absent := v r\<rparr>) (row_filter doi df)"
    by (induction df) (simp_all add: row_filter_def)
  have 2: "r \<in> set (row_filter doi df)"
    if "r \<in> set df \<and> Check_in r \<noteq> ''-'' \<and> Check_out r \<noteq> ''-'' \<and> Schedule_in r \<noteq> ''-''
        \<and> Schedule_out r \<noteq> ''-'' \<and> FreeTime r = 0 \<and> Weekday r \<in> set doi"
    using that by (simp add: row_filter_def)
  note 3 = prep_frame_absent(1)[of to_datetime days w frame]
  note 4 = prep_frame_absent(2)[of to_datetime days w frame]
  have 5: "\<exists>row \<in> set (fdf L).
             convert_row to_datetime (add_weekday rec) = Some row \<and> Absent row = Absent rec
             \<and> (\<forall>h \<in> set (interval_hours (Check_in row) (Check_out row)).
                   0 < length (filter (\<lambda>r. h \<in> set (interval_hours (Check_in r) (Check_out r)))
                                 (fdf L))
                   \<and> map_of (checkcount L) h
                       = Some (length (filter
                                 (\<lambda>r. h \<in> set (interval_hours (Check_in r) (Check_out r)))
                                 (fdf L))))
             \<and> (\<forall>h \<in> set (interval_hours (Schedule_in row) (Schedule_out row)).
                   0 < length (filter
                                 (\<lambda>r. h \<in> set (interval_hours (Schedule_in r) (Schedule_out r)))
                                 (fdf L))
                   \<and> map_of (plancount L) h
                       = Some (length (filter
                                 (\<lambda>r. h \<in> set (interval_hours (Schedule_in r) (Schedule_out r)))
                                 (fdf L))))"
    if h: "prep_frame to_datetime days frame = Inr L \<and> rec \<in> set frame
        \<and> Check_in rec \<noteq> ''-'' \<and> Check_out rec \<noteq> ''-'' \<and> Schedule_in rec \<noteq> ''-''
        \<and> Schedule_out rec \<noteq> ''-'' \<and> FreeTime rec = 0
        \<and> day_name (Date rec) \<in> set (days_of_interest days)"
  proof -
    from h have run: "prep_frame to_datetime days frame = Inr L"
      by simp
    from h have "add_weekday rec \<in> set (row_filter (days_of_interest days) (map add_weekday frame))"
      by (simp add: row_filter_def add_weekday_fields)
    with prep_frame_Inr(1)[OF run] obtain row where
      row: "row \<in> set (fdf L)" "convert_row to_datetime (add_weekday rec) = Some row"
      using convert_rows_member by blast
    have a: "Absent row = Absent rec"
      using convert_row_fields(3)[OF row(2)] by (simp add: add_weekday_fields)
    have c: "0 < length (filter (\<lambda>r. h \<in> set (interval_hours (Check_in r) (Check_out r))) (fdf L))
        \<and> map_of (checkcount L) h
            = Some (length (filter (\<lambda>r. h \<in> set (interval_hours (Check_in r) (Check_out r)))
                              (fdf L)))"
      if "h \<in> set (interval_hours (Check_in row) (Check_out row))" for h
      using covering_positive[where f = Check_in and g = Check_out, OF row(1) that]
        prep_frame_counts(1)[OF run, of h]
      by (simp add: Let_def)
    have p: "0 < length (filter (\<lambda>r. h \<in> set (interval_hours (Schedule_in r) (Schedule_out r)))
                           (fdf L))
        \<and> map_of (plancount L) h
            = Some (length (filter (\<lambda>r. h \<in> set (interval_hours (Schedule_in r) (Schedule_out r)))
                              (fdf L)))"
      if "h \<in> set (interval_hours (Schedule_in row) (Schedule_out row))" for h
      using covering_positive[where f = Schedule_in and g = Schedule_out, OF row(1) that]
        prep_frame_counts(2)[OF run, of h]
      by (simp add: Let_def)
    from row a c p show ?thesis by blast
  qed
  from 1 2 3 4 5 show ?thesis by blast
qed

theorem absent_not_consulted_witness:
  "add_weekday (monday_row\<lparr>Absent := 1\<rparr>)
     \<in> set (row_filter (days_of_interest ''All'')
              [add_weekday (monday_row\<lparr>Absent := 1\<rparr>), add_weekday short_row])
   \<and> map_sum id checkcount
         (prep_frame to_datetime_hhmm ''All'' [monday_row\<lparr>Absent := 1\<rparr>, short_row\<lparr>Absent := 1\<rparr>])
       = map_sum id checkcount (prep_frame to_datetime_hhmm ''All'' [monday_row, short_row])
   \<and> prep_frame to_datetime_hhmm ''All'' [monday_row\<lparr>Absent := 1\<rparr>, short_row]
       = Inr (projr (prep_frame to_datetime_hhmm ''All'' [monday_row\<lparr>Absent := 1\<rparr>, short_row]))
   \<and> map_of (checkcount (projr (prep_frame to_datetime_hhmm ''All''
                                   [monday_row\<lparr>Absent := 1\<rparr>, short_row]))) 9 = Some 2
   \<and> map_of (checkcount (projr (prep_frame to_datetime_hhmm ''All''
                                   [monday_row\<lparr>Absent := 1\<rparr>, short_row]))) 12 = Some 1
   \<and> map_of (plancount (projr (prep_frame to_datetime_hhmm ''All''
                                  [monday_row\<lparr>Absent := 1\<rparr>, short_row]))) 16 = Some 2"
proof -
  let ?r0 = "monday_row\<lparr>Absent := 1\<rparr>"
  let ?row0 = "monday_filtered\<lparr>Absent := 1\<rparr>"
  let ?df0 = "[?r0, short_row]"
  let ?L = "projr (prep_frame to_datetime_hhmm ''All'' ?df0)"
  have f: "Check_in ?r0 \<noteq> ''-''" "Check_out ?r0 \<noteq> ''-''" "Schedule_in ?r0 \<noteq> ''-''"
      "Schedule_out ?r0 \<noteq> ''-''" "FreeTime ?r0 = 0"
    by (simp_all add: monday_row_def)
  have d: "day_name (Date ?r0) \<in> set (days_of_interest ''All'')"
    by (simp add: monday_row_def day_name_def days_of_interest_def)
  have run: "prep_frame to_datetime_hhmm ''All'' ?df0 = Inr ?L"
    by code_simp
  have conv: "convert_row to_datetime_hhmm (add_weekday ?r0) = Some ?row0"
    by code_simp
  have h9: "9 \<in> set (interval_hours (Check_in ?row0) (Check_out ?row0))"
    by code_simp
  have h12: "12 \<in> set (interval_hours (Check_in ?row0) (Check_out ?row0))"
    by code_simp
  have h16: "16 \<in> set (interval_hours (Schedule_in ?row0) (Schedule_out ?row0))"
    by code_simp
  have n9: "length (filter (\<lambda>r. 9 \<in> set (interval_hours (Check_in r) (Check_out r))) (fdf ?L)) = 2"
    by code_simp
  have n12: "length (filter (\<lambda>r. 12 \<in> set (interval_hours (Check_in r) (Check_out r))) (fdf ?L)) = 1"
    by code_simp
  have n16: "length (filter (\<lambda>r. 16 \<in> set (interval_hours (Schedule_in r) (Schedule_out r)))
                       (fdf ?L)) = 2"
    by code_simp
  note t = absent_not_consulted[where doi = "days_of_interest ''All''"
      and df = "[add_weekday ?r0, add_weekday short_row]" and r = "add_weekday ?r0"
      and to_datetime = to_datetime_hhmm and days = "''All''" and w = "\<lambda>r. 1"
      and frame = "[monday_row, short_row]" and v = "\<lambda>r. Absent r"]
  note u = absent_not_consulted[where doi = "days_of_interest ''All''"
      and df = "[]" and to_datetime = to_datetime_hhmm and days = "''All''"
      and frame = ?df0 and L = ?L and rec = ?r0]
  from t f d have m: "add_weekday ?r0
      \<in> set (row_filter (days_of_interest ''All'') [add_weekday ?r0, add_weekday short_row])"
    by (simp add: add_weekday_fields)
  from t have inv: "map_sum id checkcount
        (prep_frame to_datetime_hhmm ''All'' [monday_row\<lparr>Absent := 1\<rparr>, short_row\<lparr>Absent := 1\<rparr>])
      = map_sum id checkcount (prep_frame to_datetime_hhmm ''All'' [monday_row, short_row])"
    by simp
  have hyp: "prep_frame to_datetime_hhmm ''All'' ?df0 = Inr ?L \<and> ?r0 \<in> set ?df0
        \<and> Check_in ?r0 \<noteq> ''-'' \<and> Check_out ?r0 \<noteq> ''-'' \<and> Schedule_in ?r0 \<noteq> ''-''
        \<and> Schedule_out ?r0 \<noteq> ''-'' \<and> FreeTime ?r0 = 0
        \<and> day_name (Date ?r0) \<in> set (days_of_interest ''All'')"
    by (intro conjI run f d) simp
  note imp = u[THEN conjunct2, THEN conjunct2, THEN conjunct2, THEN conjunct2]
  from mp[OF imp hyp] obtain row where
    row: "convert_row to_datetime_hhmm (add_weekday ?r0) = Some row"
      "\<forall>h \<in> set (interval_hours (Check_in row) (Check_out row)).
          0 < length (filter (\<lambda>r. h \<in> set (interval_hours (Check_in r) (Check_out r)))
                        (fdf ?L))
          \<and> map_of (checkcount ?L) h
              = Some (length (filter
                        (\<lambda>r. h \<in> set (interval_hours (Check_in r) (Check_out r)))
                        (fdf ?L)))"
      "\<forall>h \<in> set (interval_hours (Schedule_in row) (Schedule_out row)).
          0 < length (filter
                        (\<lambda>r. h \<in> set (interval_hours (Schedule_in r) (Schedule_out r)))
                        (fdf ?L))
          \<and> map_of (plancount ?L) h
              = Some (length (filter
                        (\<lambda>r. h \<in> set (interval_hours (Schedule_in r) (Schedule_out r)))
                        (fdf ?L)))"
    by blast
  from row(1) conv have eq: "row = ?row0"
    by simp
  have "map_of (checkcount ?L) 9
      = Some (length (filter (\<lambda>r. 9 \<in> set (interval_hours (Check_in r) (Check_out r)))
                        (fdf ?L)))"
    using row(2) h9 unfolding eq by blast
  then have c9: "map_of (checkcount ?L) 9 = Some 2"
    by (simp only: n9)
  have "map_of (checkcount ?L) 12
      = Some (length (filter (\<lambda>r. 12 \<in> set (interval_hours (Check_in r) (Check_out r)))
                        (fdf ?L)))"
    using row(2) h12 unfolding eq by blast
  then have c12: "map_of (checkcount ?L) 12 = Some 1"
    by (simp only: n12)
  have "map_of (plancount ?L) 16
      = Some (length (filter (\<lambda>r. 16 \<in> set (interval_hours (Schedule_in r) (Schedule_out r)))
                        (fdf ?L)))"
    using row(3) h16 unfolding eq by blast
  then have p16: "map_of (plancount ?L) 16 = Some 2"
    by (simp only: n16)
  from m inv run c9 c12 p16 show ?thesis by blast
qed

section \<open>Reversed intervals\<close>

text \<open>
  C9: where the hour of the end timestamp is less than the hour of the start timestamp,
  the Interval Expander returns the empty list; a filtered record with such an actual
  interval leaves the actual counts as they are without the record, and one with such
  a planned interval leaves the planned counts as they are without it.
\<close>

theorem reversed_interval_empty:
  "(hour_of b < hour_of a \<longrightarrow> interval_hours a b = [])
   \<and> (hour_of (Check_out r) < hour_of (Check_in r) \<longrightarrow>
        hour_counts (fst (hour_loop (xs @ r # ys))) = hour_counts (fst (hour_loop (xs @ ys))))
   \<and> (hour_of (Schedule_out r) < hour_of (Schedule_in r) \<longrightarrow>
        hour_counts (snd (hour_loop (xs @ r # ys))) = hour_counts (snd (hour_loop (xs @ ys))))"
  by (simp add: interval_hours_upto hour_loop_map hour_counts_def)

theorem reversed_interval_empty_witness:
  "hour_of 367200 < hour_of 424800 \<and> interval_hours 424800 367200 = []
   \<and> hour_of (Check_out night_filtered) < hour_of (Check_in night_filtered)
   \<and> hour_counts (fst (hour_loop ([monday_filtered] @ night_filtered # [short_filtered])))
       = hour_counts (fst (hour_loop ([monday_filtered] @ [short_filtered])))
   \<and> hour_of (Schedule_out (sample_filtered 345600 424800 367200 374400 403200))
       < hour_of (Schedule_in (sample_filtered 345600 424800 367200 374400 403200))
   \<and> hour_counts (snd (hour_loop ([] @ sample_filtered 345600 424800 367200 374400 403200
                                      # [monday_filtered])))
       = hour_counts (snd (hour_loop ([] @ [monday_filtered])))"
proof -
  have h1: "hour_of 367200 < hour_of 424800"
    by (simp add: hour_of_def)
  have h2: "hour_of (Check_out night_filtered) < hour_of (Check_in night_filtered)"
    by (simp add: hour_of_def night_filtered_def sample_filtered_def)
  have h3: "hour_of (Schedule_out (sample_filtered 345600 424800 367200 374400 403200))
      < hour_of (Schedule_in (sample_filtered 345600 424800 367200 374400 403200))"
    by (simp add: hour_of_def sample_filtered_def)
  show ?thesis
    using h1 h2 h3
      reversed_interval_empty[of 367200 424800 night_filtered "[monday_filtered]" "[short_filtered]"]
      reversed_interval_empty[of 367200 424800 "sample_filtered 345600 424800 367200 374400 403200"
        "[]" "[monday_filtered]"]
    by blast
qed

section \<open>Properties of the Record Loader\<close>

text \<open>
  C8: where no entry of the directory matches the pattern, \<^verbatim>\<open>read_local_data\<close> does
  not return a frame, empty or not: the concatenation of no frames raises
  \<^verbatim>\<open>ValueError\<close>, and so does \<^verbatim>\<open>prep_and_visualize\<close> on the local branch.
\<close>

theorem no_files_fails:
  assumes "glob_xls dir = []"
  shows "read_local_data dir = Inl ValueError
       \<and> read_local_data dir \<noteq> Inr []
       \<and> prep_and_visualize to_datetime dir connect True days = Inl ValueError"
  using assms by (simp add: read_local_data_def pd_concat_def prep_and_visualize_def)

theorem no_files_fails_witness:
  "glob_xls [(''notes.txt'', Inr [monday_row])] = []
   \<and> read_local_data [(''notes.txt'', Inr [monday_row])] = Inl ValueError
   \<and> prep_and_visualize to_datetime_hhmm [(''notes.txt'', Inr [monday_row])] None True ''All''
       = Inl ValueError"
proof -
  have h: "glob_xls [(''notes.txt'', Inr [monday_row])] = []"
    by code_simp
  show ?thesis
    using h no_files_fails[OF h, of to_datetime_hhmm None "''All''"] by simp
qed

text \<open>
  C7: the database branch of \<^verbatim>\<open>prep_and_visualize\<close> calls \<^verbatim>\<open>read_from_db\<close> without
  the school and the date, so the call raises \<^verbatim>\<open>TypeError\<close> and no query is issued,
  whatever the other inputs. Called with both arguments on an open connection,
  \<^verbatim>\<open>read_from_db\<close> raises \<^verbatim>\<open>NameError\<close> at \<^verbatim>\<open>pandas.read_sql\<close>.
\<close>

theorem database_branch_raises:
  "prep_and_visualize to_datetime dir connect False days = Inl TypeError
   \<and> read_from_db (Some school) (Some date) None = Inl NameError"
  by (simp add: prep_and_visualize_def read_from_db_def)

end
